theory Spec2Isabelle
  imports Main "HOL-Library.Word"
begin

section \<open>JavaScript strings\<close>

text \<open>
  A JavaScript string is a sequence of UTF-16 code units. String literals of the source are
  written \<open>js ''...''\<close>; all of them are ASCII except the floppy-disk emoji of the export
  button, which is the surrogate pair D83D DCBE.
\<close>

type_synonym jschar = "16 word"
type_synonym jsstring = "jschar list"

definition js :: "string \<Rightarrow> jsstring" where
  "js s = map of_char s"

text \<open>
  \<open>String.prototype.trim\<close> removes, at both ends, the code units of the ECMAScript
  productions WhiteSpace (TAB, VT, FF, SP, NBSP, ZWNBSP and the Unicode category Zs) and
  LineTerminator (LF, CR, LS, PS).
\<close>

definition is_white_space :: "jschar \<Rightarrow> bool" where
  "is_white_space c \<longleftrightarrow>
     c \<in> {0x09, 0x0A, 0x0B, 0x0C, 0x0D, 0x20, 0xA0, 0x1680,
          0x2028, 0x2029, 0x202F, 0x205F, 0x3000, 0xFEFF}
     \<or> (0x2000 \<le> c \<and> c \<le> 0x200A)"

definition trim :: "jsstring \<Rightarrow> jsstring" where
  "trim s = rev (dropWhile is_white_space (rev (dropWhile is_white_space s)))"

text \<open>\<open>String(n)\<close> for a non-negative integer below \<open>10^21\<close>: its decimal digits.\<close>

fun number_to_string :: "nat \<Rightarrow> jsstring" where
  "number_to_string n =
     (if n < 10 then [of_nat (48 + n)]
      else number_to_string (n div 10) @ [of_nat (48 + n mod 10)])"

declare number_to_string.simps [simp del]

text \<open>\<open>s.substr(start, len)\<close> for non-negative arguments.\<close>

definition substr :: "jsstring \<Rightarrow> nat \<Rightarrow> nat \<Rightarrow> jsstring" where
  "substr s start len = take len (drop start s)"

text \<open>\<open>s.substring(0, i)\<close>, \<open>s.includes(c)\<close> and \<open>s.lastIndexOf(c)\<close> for a one-unit
  needle \<open>c\<close>; \<open>lastIndexOf\<close> returns \<open>-1\<close> when the needle is absent.\<close>

definition substring0 :: "jsstring \<Rightarrow> int \<Rightarrow> jsstring" where
  "substring0 s i = take (nat i) s"

definition str_includes :: "jsstring \<Rightarrow> jschar \<Rightarrow> bool" where
  "str_includes s c \<longleftrightarrow> c \<in> set s"

fun lastIndexOf_from :: "jsstring \<Rightarrow> jschar \<Rightarrow> int \<Rightarrow> int \<Rightarrow> int" where
  "lastIndexOf_from [] c i found = found"
| "lastIndexOf_from (x # xs) c i found =
     lastIndexOf_from xs c (i + 1) (if x = c then i else found)"

definition lastIndexOf :: "jsstring \<Rightarrow> jschar \<Rightarrow> int" where
  "lastIndexOf s c = lastIndexOf_from s c 0 (- 1)"

definition slash :: jschar where
  "slash = 0x2F"

text \<open>The value of \<open>a || ""\<close> for a string that may be \<open>undefined\<close>.\<close>

definition or_empty :: "jsstring option \<Rightarrow> jsstring" where
  "or_empty a = (case a of None \<Rightarrow> [] | Some s \<Rightarrow> s)"

section \<open>Thrown values\<close>

text \<open>
  Everything the code throws or catches is an \<open>Error\<close> object; only its \<open>message\<close> is read.
\<close>

datatype js_error = Error (message: jsstring)

section \<open>The document tree\<close>

text \<open>
  An element has a tag name, a class list, attributes, inline style properties and child
  nodes; a child is a text node or an element.
\<close>

datatype element =
  Element (tagName: jsstring) (classList: "jsstring list")
          (attributes: "(jsstring \<times> jsstring) list")
          (style: "(jsstring \<times> jsstring) list")
          (childNodes: "node list")
and node = TextNode jsstring | ElementNode element

fun textContent_nodes :: "node list \<Rightarrow> jsstring" where
  "textContent_nodes [] = []"
| "textContent_nodes (TextNode t # ns) = t @ textContent_nodes ns"
| "textContent_nodes (ElementNode (Element tg cl at st ks) # ns) =
     textContent_nodes ks @ textContent_nodes ns"

definition textContent :: "element \<Rightarrow> jsstring" where
  "textContent e = textContent_nodes (childNodes e)"

text \<open>The first element, in document order, among the descendants given as a forest.\<close>

fun find_first :: "(element \<Rightarrow> bool) \<Rightarrow> node list \<Rightarrow> element option" where
  "find_first p [] = None"
| "find_first p (TextNode t # ns) = find_first p ns"
| "find_first p (ElementNode (Element tg cl at st ks) # ns) =
     (if p (Element tg cl at st ks) then Some (Element tg cl at st ks)
      else case find_first p ks of
             Some e \<Rightarrow> Some e
           | None \<Rightarrow> find_first p ns)"

text \<open>The same search, applying \<open>f\<close> in place to the element found.\<close>

fun update_first :: "(element \<Rightarrow> bool) \<Rightarrow> (element \<Rightarrow> element) \<Rightarrow> node list \<Rightarrow> node list option" where
  "update_first p f [] = None"
| "update_first p f (TextNode t # ns) =
     map_option ((#) (TextNode t)) (update_first p f ns)"
| "update_first p f (ElementNode (Element tg cl at st ks) # ns) =
     (if p (Element tg cl at st ks) then Some (ElementNode (f (Element tg cl at st ks)) # ns)
      else case update_first p f ks of
             Some ks' \<Rightarrow> Some (ElementNode (Element tg cl at st ks') # ns)
           | None \<Rightarrow> map_option ((#) (ElementNode (Element tg cl at st ks))) (update_first p f ns))"

text \<open>\<open>e.querySelector("svg")\<close> and \<open>e.querySelector(".cls")\<close>.\<close>

definition querySelector_tag :: "element \<Rightarrow> jsstring \<Rightarrow> element option" where
  "querySelector_tag e tg = find_first (\<lambda>x. tagName x = tg) (childNodes e)"

definition querySelector_class :: "element \<Rightarrow> jsstring \<Rightarrow> element option" where
  "querySelector_class e c = find_first (\<lambda>x. c \<in> set (classList x)) (childNodes e)"

definition appendChild :: "element \<Rightarrow> element \<Rightarrow> element" where
  "appendChild parent child =
     Element (tagName parent) (classList parent) (attributes parent) (style parent)
             (childNodes parent @ [ElementNode child])"

definition set_style :: "element \<Rightarrow> (jsstring \<times> jsstring) list \<Rightarrow> element" where
  "set_style e props =
     Element (tagName e) (classList e) (attributes e)
             (filter (\<lambda>kv. fst kv \<notin> fst ` set props) (style e) @ props) (childNodes e)"

definition setAttribute :: "element \<Rightarrow> jsstring \<Rightarrow> jsstring \<Rightarrow> element" where
  "setAttribute e k v =
     Element (tagName e) (classList e)
             (filter (\<lambda>kv. fst kv \<noteq> k) (attributes e) @ [(k, v)]) (style e) (childNodes e)"

text \<open>
  The host's \<open>parent.createEl(tag, {text, cls})\<close> makes an element with that class and text
  content and appends it to \<open>parent\<close>. \<open>new_el\<close> is the element made, \<open>createEl\<close> the parent
  afterwards. Setting an empty text content adds no text node.
\<close>

definition new_el :: "jsstring \<Rightarrow> jsstring option \<Rightarrow> jsstring option \<Rightarrow> element" where
  "new_el tg text cls =
     Element tg (case cls of None \<Rightarrow> [] | Some c \<Rightarrow> [c]) [] []
             (case text of None \<Rightarrow> [] | Some t \<Rightarrow> if t = [] then [] else [TextNode t])"

definition createEl :: "element \<Rightarrow> jsstring \<Rightarrow> jsstring option \<Rightarrow> jsstring option \<Rightarrow> element" where
  "createEl parent tg text cls = appendChild parent (new_el tg text cls)"

section \<open>The plugin, the library and the host\<close>

text \<open>
  The sources hold two revisions of the plugin class. \<open>Rev_innerHTML\<close> is \<open>src/main.ts\<close>:
  it passes a theme and a font to the library, assigns the produced markup to \<open>innerHTML\<close>
  and styles the container and the export button inline. \<open>Rev_DOMParser\<close> is the other
  copy of the class: it passes no theme, parses the produced markup with \<open>DOMParser\<close> and
  requires an \<open>svg\<close> root, and adds the export button only once. The export functions are
  the same in both. Every function that differs takes the revision as an argument.
  Console logging, event listeners, timers and the export menu are left out: no operation
  modelled here reads them.
\<close>

datatype revision = Rev_innerHTML | Rev_DOMParser

record mermaid_config =
  startOnLoad :: bool
  theme :: "jsstring option"
  securityLevel :: jsstring
  fontFamily :: "jsstring option"
  flowchart_useMaxWidth :: bool
  flowchart_htmlLabels :: bool
  sequence_useMaxWidth :: bool
  gantt_useMaxWidth :: bool

text \<open>The calls made to the diagram library, in order.\<close>

datatype lib_call =
  Initialize mermaid_config
| Parse jsstring
| Render jsstring jsstring

datatype parse_outcome = ParseTruthy | ParseFalsy | ParseThrows js_error

text \<open>A pixel is red, green, blue and alpha.\<close>

type_synonym rgba = "8 word \<times> 8 word \<times> 8 word \<times> 8 word"

text \<open>
  A decoded image, as \<open>drawImage\<close> samples it: given the size in device pixels of the
  destination rectangle and a pixel of it, the colour the image contributes there, or
  \<open>None\<close> where the image does not cover the pixel.
\<close>

type_synonym image = "nat \<times> nat \<Rightarrow> nat \<times> nat \<Rightarrow> rgba option"

datatype blob_outcome = BlobThrows js_error | BlobNull | BlobOk

text \<open>
  Everything outside the repository is a parameter: the diagram library (each call may
  depend on the calls made before it), the clock and random source, the browser's parsers
  and serializer, the layout measurements of the rendered visual, the canvas and the
  host's vault. A vault or library call that throws is \<open>Some e\<close> or \<open>Inl e\<close>.
  \<open>computed_width\<close> is \<open>parseInt(getComputedStyle(svg).width)\<close>, \<open>None\<close> for \<open>NaN\<close>;
  \<open>random_base36\<close> is \<open>Math.random().toString(36)\<close>.
\<close>

record host =
  mermaid_initialize :: "lib_call list \<Rightarrow> mermaid_config \<Rightarrow> js_error option"
  mermaid_parse :: "lib_call list \<Rightarrow> jsstring \<Rightarrow> parse_outcome"
  mermaid_render :: "lib_call list \<Rightarrow> jsstring \<Rightarrow> jsstring \<Rightarrow> js_error + jsstring"
  body_theme_dark :: bool
  date_now :: nat
  random_base36 :: jsstring
  innerHTML_parse :: "jsstring \<Rightarrow> node list"
  parseFromString :: "jsstring \<Rightarrow> element"
  serializeToString :: "element \<Rightarrow> jsstring"
  encodeURIComponent :: "jsstring \<Rightarrow> jsstring"
  canvas_getContext :: bool
  computed_width :: "nat option"
  computed_height :: "nat option"
  clientWidth :: nat
  clientHeight :: nat
  image_load :: "jsstring \<Rightarrow> image option"
  blend :: "rgba \<Rightarrow> rgba \<Rightarrow> rgba"
  canvas_toBlob :: blob_outcome
  vault_create :: "jsstring \<Rightarrow> jsstring \<Rightarrow> js_error option"
  vault_createBinary :: "jsstring \<Rightarrow> js_error option"

text \<open>
  A file written to the vault: text, or the PNG encoding of a bitmap (its width, its
  height and its pixels; the encoding is lossless).
\<close>

datatype file_content = TextFile jsstring | PngFile nat nat "nat \<Rightarrow> nat \<Rightarrow> rgba"

text \<open>
  The plugin's only field is \<open>mermaidInitialized\<close>. The other three fields record what
  the plugin did to the outside: library calls, notices shown, files created.
\<close>

record plugin =
  mermaidInitialized :: bool
  lib_calls :: "lib_call list"
  notices :: "jsstring list"
  files :: "(jsstring \<times> file_content) list"

record processor_context =
  sourcePath :: "jsstring option"

subsection \<open>initializeMermaid\<close>

definition initialize_config :: "revision \<Rightarrow> host \<Rightarrow> mermaid_config" where
  "initialize_config rv h =
     (case rv of
        Rev_innerHTML \<Rightarrow>
          \<lparr>startOnLoad = False,
           theme = Some (if body_theme_dark h then js ''dark'' else js ''default''),
           securityLevel = js ''loose'',
           fontFamily = Some (js ''var(--font-interface)''),
           flowchart_useMaxWidth = True, flowchart_htmlLabels = True,
           sequence_useMaxWidth = True, gantt_useMaxWidth = True\<rparr>
      | Rev_DOMParser \<Rightarrow>
          \<lparr>startOnLoad = False,
           theme = None,
           securityLevel = js ''loose'',
           fontFamily = None,
           flowchart_useMaxWidth = True, flowchart_htmlLabels = True,
           sequence_useMaxWidth = True, gantt_useMaxWidth = True\<rparr>)"

definition initializeMermaid :: "revision \<Rightarrow> host \<Rightarrow> plugin \<Rightarrow> plugin" where
  "initializeMermaid rv h s =
     (if mermaidInitialized s then s
      else
        let config = initialize_config rv h;
            s1 = s\<lparr>lib_calls := lib_calls s @ [Initialize config]\<rparr>
        in case mermaid_initialize h (lib_calls s) config of
             None \<Rightarrow> s1\<lparr>mermaidInitialized := True\<rparr>
           | Some error \<Rightarrow> s1)"

text \<open>\<open>onload\<close> initializes the library and registers the block handler.\<close>

definition onload :: "revision \<Rightarrow> host \<Rightarrow> plugin \<Rightarrow> plugin" where
  "onload rv h s = initializeMermaid rv h s"

subsection \<open>addExportFunctionality\<close>

definition export_button_text :: jsstring where
  "export_button_text = [0xD83D, 0xDCBE] @ js '' Export''"

definition export_button_css :: "(jsstring \<times> jsstring) list" where
  "export_button_css =
     [(js ''position'', js ''absolute''), (js ''top'', js ''5px''), (js ''right'', js ''5px''),
      (js ''opacity'', js ''0''), (js ''transition'', js ''opacity 0.2s''),
      (js ''background'', js ''var(--background-primary)''),
      (js ''border'', js ''1px solid var(--background-modifier-border)''),
      (js ''border-radius'', js ''4px''), (js ''padding'', js ''2px 6px''),
      (js ''font-size'', js ''12px''), (js ''cursor'', js ''pointer'')]"

definition addExportFunctionality :: "revision \<Rightarrow> element \<Rightarrow> element" where
  "addExportFunctionality rv container =
     (case rv of
        Rev_innerHTML \<Rightarrow>
          let exportBtn = new_el (js ''button'') (Some export_button_text)
                                 (Some (js ''mermaid-export-btn''));
              exportBtn = Element (tagName exportBtn) (classList exportBtn) (attributes exportBtn)
                                  export_button_css (childNodes exportBtn)
          in set_style (appendChild container exportBtn) [(js ''position'', js ''relative'')]
      | Rev_DOMParser \<Rightarrow>
          if querySelector_class container (js ''mermaid-export-btn'') \<noteq> None then container
          else
            let exportBtn = new_el (js ''button'') (Some export_button_text)
                                   (Some (js ''mermaid-export-btn''));
                exportBtn = setAttribute exportBtn (js ''title'') (js ''Export diagram'')
            in appendChild container exportBtn)"

subsection \<open>renderMermaid\<close>

text \<open>
  What follows the library's render call in the \<open>try\<close> block: attaching the markup to the
  container. \<open>Rev_innerHTML\<close> assigns \<open>innerHTML\<close> and styles the container and its
  first \<open>svg\<close> descendant; \<open>Rev_DOMParser\<close> parses the markup as XML, requires the root
  to be an \<open>svg\<close> element, and throws otherwise, before the container is touched.
\<close>

definition make_responsive :: "element \<Rightarrow> element" where
  "make_responsive svgElement =
     set_style (set_style svgElement [(js ''max-width'', js ''100%'')]) [(js ''height'', js ''auto'')]"

definition attach_markup :: "revision \<Rightarrow> host \<Rightarrow> jsstring \<Rightarrow> element \<Rightarrow> js_error + element" where
  "attach_markup rv h svg container =
     (case rv of
        Rev_innerHTML \<Rightarrow>
          let container = Element (tagName container) (classList container)
                                  (attributes container) (style container) (innerHTML_parse h svg);
              container = set_style container [(js ''text-align'', js ''center'')];
              container = set_style container [(js ''margin'', js ''1em 0'')];
              container =
                (case update_first (\<lambda>x. tagName x = js ''svg'') make_responsive
                                   (childNodes container) of
                   None \<Rightarrow> container
                 | Some ks \<Rightarrow> Element (tagName container) (classList container)
                                      (attributes container) (style container) ks)
          in Inr (addExportFunctionality rv container)
      | Rev_DOMParser \<Rightarrow>
          let svgElement = parseFromString h svg
          in if tagName svgElement = js ''svg''
             then Inr (addExportFunctionality rv (appendChild container svgElement))
             else Inl (Error (js ''Failed to render SVG element'')))"

text \<open>
  The \<open>try\<close> block after the container has been created. Every \<open>throw\<close> happens while
  the container is still as created, so a failure returns the error alone.
\<close>

definition renderMermaid_try ::
  "revision \<Rightarrow> host \<Rightarrow> jsstring \<Rightarrow> jsstring \<Rightarrow> element \<Rightarrow> plugin \<Rightarrow> (js_error + element) \<times> plugin" where
  "renderMermaid_try rv h source ident container s =
     (let cleanSource = trim source
      in if cleanSource = [] then (Inl (Error (js ''Empty Mermaid diagram'')), s)
         else
           let s1 = s\<lparr>lib_calls := lib_calls s @ [Parse cleanSource]\<rparr>
           in case mermaid_parse h (lib_calls s) cleanSource of
                ParseThrows error \<Rightarrow> (Inl error, s1)
              | ParseFalsy \<Rightarrow> (Inl (Error (js ''Invalid Mermaid syntax'')), s1)
              | ParseTruthy \<Rightarrow>
                  let s2 = s1\<lparr>lib_calls := lib_calls s1 @ [Render ident cleanSource]\<rparr>
                  in (case mermaid_render h (lib_calls s1) ident cleanSource of
                        Inl error \<Rightarrow> (Inl error, s2)
                      | Inr svg \<Rightarrow> (attach_markup rv h svg container, s2)))"

text \<open>The \<open>catch\<close> block: the error display appended to the output element.\<close>

definition renderMermaid_catch :: "element \<Rightarrow> js_error \<Rightarrow> jsstring \<Rightarrow> element" where
  "renderMermaid_catch el error source =
     (let errorContainer = new_el (js ''div'') None (Some (js ''mermaid-error''));
          errorContainer =
            createEl errorContainer (js ''div'')
              (Some (js ''Mermaid Error: '' @
                     (if message error \<noteq> [] then message error else js ''Unknown error'')))
              (Some (js ''mermaid-error-message''));
          pre = new_el (js ''pre'') None None;
          pre = createEl pre (js ''code'') (Some source) (Some (js ''language-mermaid''))
      in appendChild el (appendChild errorContainer pre))"

text \<open>The identifier \<open>`mermaid-${Date.now()}-${Math.random().toString(36).substr(2, 9)}`\<close>.\<close>

definition diagram_id :: "host \<Rightarrow> jsstring" where
  "diagram_id h =
     js ''mermaid-'' @ number_to_string (date_now h) @ js ''-'' @ substr (random_base36 h) 2 9"

text \<open>
  The handler returns the output element and the plugin afterwards. The container is
  appended to the output element before anything can throw; on success the element
  appended is the container as the \<open>try\<close> block left it.
\<close>

definition renderMermaid ::
  "revision \<Rightarrow> host \<Rightarrow> jsstring \<Rightarrow> element \<Rightarrow> processor_context \<Rightarrow> plugin \<Rightarrow> element \<times> plugin" where
  "renderMermaid rv h source el ctx s =
     (let s = (if \<not> mermaidInitialized s then initializeMermaid rv h s else s)
      in if \<not> mermaidInitialized s
         then (createEl el (js ''div'') (Some (js ''Failed to initialize Mermaid library''))
                        (Some (js ''mermaid-error'')), s)
         else
           let ident = diagram_id h;
               container = new_el (js ''div'') None (Some (js ''mermaid-container''));
               el1 = appendChild el container
           in case renderMermaid_try rv h source ident container s of
                (Inr container', s') \<Rightarrow> (appendChild el container', s')
              | (Inl error, s') \<Rightarrow> (renderMermaid_catch el1 error source, s'))"

subsection \<open>Export: destination path\<close>

text \<open>
  Both export functions compute the directory of the current file and the destination
  path with the same expressions:
  \<open>currentFilePath.includes("/") ? currentFilePath.substring(0, currentFilePath.lastIndexOf("/")) : ""\<close>
  and \<open>currentDir ? `${currentDir}/${fileName}` : fileName\<close>.
\<close>

definition currentDir :: "processor_context \<Rightarrow> jsstring" where
  "currentDir ctx =
     (let currentFilePath = or_empty (sourcePath ctx)
      in if str_includes currentFilePath slash
         then substring0 currentFilePath (lastIndexOf currentFilePath slash)
         else [])"

definition filePath :: "jsstring \<Rightarrow> jsstring \<Rightarrow> jsstring" where
  "filePath dir fileName = (if dir \<noteq> [] then dir @ [slash] @ fileName else fileName)"

text \<open>The state of a promise when nothing more can happen to it.\<close>

datatype promise = Fulfilled | Rejected js_error | Pending

definition show_notice :: "plugin \<Rightarrow> jsstring \<Rightarrow> plugin" where
  "show_notice s text = s\<lparr>notices := notices s @ [text]\<rparr>"

subsection \<open>exportAsSVG\<close>

definition xml_declaration :: jsstring where
  \<open>xml_declaration = js ''<?xml version="1.0" encoding="UTF-8"?>''\<close>

definition doctype_declaration :: jsstring where
  \<open>doctype_declaration =
     js ''<!DOCTYPE svg PUBLIC "-//W3C//DTD SVG 1.1//EN" "http://www.w3.org/Graphics/SVG/1.1/DTD/svg11.dtd">''\<close>

definition line_feed :: jschar where
  "line_feed = 0x0A"

text \<open>\<open>e.cloneNode(true)\<close>: a deep copy, the same tree as a value.\<close>

definition cloneNode :: "element \<Rightarrow> element" where
  "cloneNode e = e"

text \<open>
  The whole body is inside \<open>try\<close>, and the vault call is awaited there: whatever is
  thrown reaches the \<open>catch\<close> block, which shows a notice, and the promise is fulfilled.
\<close>

definition exportAsSVG :: "host \<Rightarrow> element \<Rightarrow> processor_context \<Rightarrow> plugin \<Rightarrow> promise \<times> plugin" where
  "exportAsSVG h container ctx s =
     (case querySelector_tag container (js ''svg'') of
        None \<Rightarrow>
          (Fulfilled, show_notice s (js ''Failed to export SVG: '' @ js ''No SVG element found''))
      | Some svgElement \<Rightarrow>
          let clonedSvg = cloneNode svgElement;
              svgString = serializeToString h clonedSvg;
              fullSvgString = xml_declaration @ [line_feed] @ doctype_declaration @ [line_feed] @
                              svgString;
              fileName = js ''mermaid-diagram-'' @ number_to_string (date_now h) @ js ''.svg'';
              path = filePath (currentDir ctx) fileName
          in (case vault_create h path fullSvgString of
                Some error \<Rightarrow>
                  (Fulfilled, show_notice s (js ''Failed to export SVG: '' @ message error))
              | None \<Rightarrow>
                  (Fulfilled,
                   show_notice (s\<lparr>files := files s @ [(path, TextFile fullSvgString)]\<rparr>)
                               (js ''SVG exported as '' @ fileName))))"

subsection \<open>exportAsPNG\<close>

text \<open>
  The canvas: its size, its bitmap, and of the 2D context the scale of the current
  transform and the fill colour. A new canvas is 300 by 150, transparent black.
\<close>

record canvas =
  canvas_width :: nat
  canvas_height :: nat
  bitmap :: "nat \<Rightarrow> nat \<Rightarrow> rgba"
  transform_scale :: nat
  fillStyle :: rgba

definition white :: rgba where
  "white = (255, 255, 255, 255)"

definition createCanvas :: canvas where
  "createCanvas =
     \<lparr>canvas_width = 300, canvas_height = 150, bitmap = (\<lambda>x y. (0, 0, 0, 0)),
      transform_scale = 1, fillStyle = (0, 0, 0, 255)\<rparr>"

text \<open>\<open>ctx.fillRect(0, 0, w, h)\<close> and \<open>ctx.drawImage(img, 0, 0, w, h)\<close> under the scale.\<close>

definition fillRect :: "canvas \<Rightarrow> nat \<Rightarrow> nat \<Rightarrow> canvas" where
  "fillRect c w ht =
     c\<lparr>bitmap := (\<lambda>x y. if x < transform_scale c * w \<and> y < transform_scale c * ht
                          then fillStyle c else bitmap c x y)\<rparr>"

definition drawImage :: "host \<Rightarrow> canvas \<Rightarrow> image \<Rightarrow> nat \<Rightarrow> nat \<Rightarrow> canvas" where
  "drawImage h c img w ht =
     c\<lparr>bitmap := (\<lambda>x y.
         if x < transform_scale c * w \<and> y < transform_scale c * ht
         then (case img (transform_scale c * w, transform_scale c * ht) (x, y) of
                 None \<Rightarrow> bitmap c x y
               | Some colour \<Rightarrow> blend h colour (bitmap c x y))
         else bitmap c x y)\<rparr>"

text \<open>\<open>a || b\<close> for numbers, where \<open>a\<close> may be \<open>NaN\<close>: zero and \<open>NaN\<close> are falsy.\<close>

definition or_number :: "nat option \<Rightarrow> nat \<Rightarrow> nat" where
  "or_number a b = (case a of None \<Rightarrow> b | Some n \<Rightarrow> if n \<noteq> 0 then n else b)"

definition export_width :: "host \<Rightarrow> nat" where
  "export_width h = or_number (computed_width h) (or_number (Some (clientWidth h)) 800)"

definition export_height :: "host \<Rightarrow> nat" where
  "export_height h = or_number (computed_height h) (or_number (Some (clientHeight h)) 600)"

text \<open>
  The \<open>try\<close> block ends with \<open>return new Promise(...)\<close>, not awaited: the function's
  promise takes the state of that promise after the \<open>try\<close> block has been left, so a
  rejection of it does not reach the \<open>catch\<close> block. The image's \<open>onerror\<close> handler, a
  throw inside \<open>onload\<close> and a null blob reject it. An exception of the vault call is
  thrown inside the asynchronous \<open>toBlob\<close> callback, whose own promise nobody reads:
  the promise returned is then never settled.
\<close>

definition exportAsPNG :: "host \<Rightarrow> element \<Rightarrow> processor_context \<Rightarrow> plugin \<Rightarrow> promise \<times> plugin" where
  "exportAsPNG h container ctx s =
     (case querySelector_tag container (js ''svg'') of
        None \<Rightarrow>
          (Fulfilled, show_notice s (js ''Failed to export PNG: '' @ js ''No SVG element found''))
      | Some svgElement \<Rightarrow>
          let dir = currentDir ctx;
              svgData = serializeToString h svgElement;
              canvas = createCanvas
          in if \<not> canvas_getContext h
             then (Fulfilled,
                   show_notice s (js ''Failed to export PNG: '' @ js ''Could not get canvas context''))
             else
               let width = export_width h;
                   height = export_height h;
                   scale = 2;
                   canvas = canvas\<lparr>canvas_width := width * scale\<rparr>;
                   canvas = canvas\<lparr>canvas_height := height * scale\<rparr>;
                   canvas = canvas\<lparr>transform_scale := scale\<rparr>;
                   svgDataUri = js ''data:image/svg+xml;charset=utf-8,'' @
                                encodeURIComponent h svgData
               in (case image_load h svgDataUri of
                     None \<Rightarrow> (Rejected (Error (js ''Failed to load SVG image'')), s)
                   | Some img \<Rightarrow>
                       let canvas = canvas\<lparr>fillStyle := white\<rparr>;
                           canvas = fillRect canvas width height;
                           canvas = drawImage h canvas img width height
                       in (case canvas_toBlob h of
                             BlobThrows error \<Rightarrow> (Rejected error, s)
                           | BlobNull \<Rightarrow> (Rejected (Error (js ''Failed to create PNG blob'')), s)
                           | BlobOk \<Rightarrow>
                               let fileName = js ''mermaid-diagram-'' @
                                              number_to_string (date_now h) @ js ''.png'';
                                   path = filePath dir fileName
                               in (case vault_createBinary h path of
                                     Some error \<Rightarrow> (Pending, s)
                                   | None \<Rightarrow>
                                       (Fulfilled,
                                        show_notice
                                          (s\<lparr>files := files s @
                                               [(path, PngFile (canvas_width canvas)
                                                               (canvas_height canvas)
                                                               (bitmap canvas))]\<rparr>)
                                          (js ''PNG exported as '' @ fileName))))))"

section \<open>Notions used in the statements\<close>

text \<open>The plugin as constructed: the field initializer \<open>mermaidInitialized = false\<close>.\<close>

definition fresh_plugin :: plugin where
  "fresh_plugin = \<lparr>mermaidInitialized = False, lib_calls = [], notices = [], files = []\<rparr>"

text \<open>
  The host calls the registered handler once for each diagram block it meets, here one
  call after the other.
\<close>

fun process_blocks ::
  "revision \<Rightarrow> host \<Rightarrow> (jsstring \<times> element \<times> processor_context) list \<Rightarrow> plugin \<Rightarrow> element list \<times> plugin" where
  "process_blocks rv h [] s = ([], s)"
| "process_blocks rv h ((source, el, ctx) # blocks) s =
     (let (el', s') = renderMermaid rv h source el ctx s;
          (els, s'') = process_blocks rv h blocks s'
      in (el' # els, s''))"

text \<open>The output element showing the fixed message of an uninitialized library.\<close>

definition failed_to_initialize :: "element \<Rightarrow> element" where
  "failed_to_initialize el =
     createEl el (js ''div'') (Some (js ''Failed to initialize Mermaid library''))
              (Some (js ''mermaid-error''))"

text \<open>
  A per-render failure, in the words of the specification: empty input, invalid syntax
  (the library's check answers falsy or throws), a render call that throws, or, in the
  \<open>DOMParser\<close> revision, produced markup whose root is not an \<open>svg\<close> element. The plugin
  state is the one in which the \<open>try\<close> block starts.
\<close>

definition per_render_failure :: "revision \<Rightarrow> host \<Rightarrow> jsstring \<Rightarrow> plugin \<Rightarrow> bool" where
  "per_render_failure rv h source s \<longleftrightarrow>
     trim source = [] \<or>
     mermaid_parse h (lib_calls s) (trim source) \<noteq> ParseTruthy \<or>
     (case mermaid_render h (lib_calls s @ [Parse (trim source)]) (diagram_id h) (trim source) of
        Inl error \<Rightarrow> True
      | Inr svg \<Rightarrow> rv = Rev_DOMParser \<and> tagName (parseFromString h svg) \<noteq> js ''svg'')"

text \<open>
  The elements below a list of nodes, in document order. The rendered visual of a
  container is the first \<open>svg\<close> element among them.
\<close>

fun descendants :: "node list \<Rightarrow> element list" where
  "descendants [] = []"
| "descendants (TextNode t # ns) = descendants ns"
| "descendants (ElementNode (Element tg cl at st ks) # ns) =
     Element tg cl at st ks # descendants ks @ descendants ns"

text \<open>
  The measured size of the rendered visual, in the words of the specification: the
  computed style's size, or the client size where the computed style gives none.
\<close>

definition measured_width :: "host \<Rightarrow> nat" where
  "measured_width h = or_number (computed_width h) (clientWidth h)"

definition measured_height :: "host \<Rightarrow> nat" where
  "measured_height h = or_number (computed_height h) (clientHeight h)"

section \<open>Sample inputs\<close>

definition sample_svg :: element where
  "sample_svg = Element (js ''svg'') [] [] [] []"

definition sample_el :: element where
  "sample_el = Element (js ''div'') [] [] [] []"

definition sample_host :: host where
  "sample_host =
     \<lparr>mermaid_initialize = (\<lambda>calls config. None),
      mermaid_parse = (\<lambda>calls text. ParseTruthy),
      mermaid_render = (\<lambda>calls ident text. Inr (js ''<svg/>'')),
      body_theme_dark = False,
      date_now = 7,
      random_base36 = js ''0.4fzyo82mvyr'',
      innerHTML_parse = (\<lambda>markup. [ElementNode sample_svg]),
      parseFromString = (\<lambda>markup. sample_svg),
      serializeToString = (\<lambda>e. js ''<svg/>''),
      encodeURIComponent = (\<lambda>text. text),
      canvas_getContext = True,
      computed_width = Some 100,
      computed_height = Some 50,
      clientWidth = 100,
      clientHeight = 50,
      image_load = (\<lambda>uri. Some (\<lambda>size pixel. None)),
      blend = (\<lambda>colour under. colour),
      canvas_toBlob = BlobOk,
      vault_create = (\<lambda>path text. None),
      vault_createBinary = (\<lambda>path. None)\<rparr>"

text \<open>A library whose configuration call always throws, and one that throws only the
  first time it is called.\<close>

definition failing_host :: host where
  "failing_host = sample_host\<lparr>mermaid_initialize := (\<lambda>calls config. Some (Error (js ''no document'')))\<rparr>"

definition recovering_host :: host where
  "recovering_host =
     sample_host\<lparr>mermaid_initialize :=
       (\<lambda>calls config. if calls = [] then Some (Error (js ''no document'')) else None)\<rparr>"

text \<open>A library that rejects every text, and a browser that reports a parse error for the
  markup produced.\<close>

definition rejecting_host :: host where
  "rejecting_host = sample_host\<lparr>mermaid_parse := (\<lambda>calls text. ParseFalsy)\<rparr>"


text \<open>A rendered diagram container, a browser that cannot decode the image, and a visual
  without measurable size.\<close>

definition sample_container :: element where
  "sample_container =
     Element (js ''div'') [js ''mermaid-container''] [] [] [ElementNode sample_svg]"

definition undecodable_host :: host where
  "undecodable_host = sample_host\<lparr>image_load := (\<lambda>uri. None)\<rparr>"

definition unmeasured_host :: host where
  "unmeasured_host =
     sample_host\<lparr>computed_width := None, computed_height := None,
                 clientWidth := 0, clientHeight := 0\<rparr>"

definition sample_context :: processor_context where
  "sample_context = \<lparr>sourcePath = Some (js ''notes/plan.md'')\<rparr>"

definition unwritable_host :: host where
  "unwritable_host =
     sample_host\<lparr>vault_createBinary := (\<lambda>path. Some (Error (js ''File already exists.'')))\<rparr>"

text \<open>A library that cannot be configured and rejects every text.\<close>

definition unready_rejecting_host :: host where
  "unready_rejecting_host = failing_host\<lparr>mermaid_parse := (\<lambda>calls text. ParseFalsy)\<rparr>"

text \<open>The size of the image in a file, when the file is an image.\<close>

fun image_size :: "file_content \<Rightarrow> (nat \<times> nat) option" where
  "image_size (TextFile text) = None"
| "image_size (PngFile w ht pixels) = Some (w, ht)"

section \<open>Library bootstrap\<close>

lemma initialize_if_needed:
  "(if \<not> mermaidInitialized s then initializeMermaid rv h s else s) = initializeMermaid rv h s"
  by (simp add: initializeMermaid_def)

lemma render_not_initialized:
  assumes "\<not> mermaidInitialized s"
    and "mermaid_initialize h (lib_calls s) (initialize_config rv h) \<noteq> None"
  shows "renderMermaid rv h source el ctx s =
           (failed_to_initialize el,
            s\<lparr>lib_calls := lib_calls s @ [Initialize (initialize_config rv h)]\<rparr>)"
  using assms
  by (auto simp: renderMermaid_def initializeMermaid_def Let_def failed_to_initialize_def)

text \<open>
  C5. Initialization is idempotent: once a call of \<open>initializeMermaid\<close> has left the ready
  flag true, a further call changes nothing, so the flag remains true; the two calls
  together make exactly one configuration call to the library when the plugin was not
  initialized before, and none when it was.
\<close>

theorem initializeMermaid_idempotent:
  assumes "mermaidInitialized (initializeMermaid rv h s)"
  shows "initializeMermaid rv h' (initializeMermaid rv h s) = initializeMermaid rv h s \<and>
         lib_calls (initializeMermaid rv h' (initializeMermaid rv h s)) =
           (if mermaidInitialized s then lib_calls s
            else lib_calls s @ [Initialize (initialize_config rv h)])"
  using assms by (simp add: initializeMermaid_def Let_def split: option.splits)

theorem initializeMermaid_idempotent_witness:
  "mermaidInitialized (initializeMermaid Rev_innerHTML sample_host fresh_plugin) \<and>
   initializeMermaid Rev_innerHTML sample_host (initializeMermaid Rev_innerHTML sample_host fresh_plugin) =
     initializeMermaid Rev_innerHTML sample_host fresh_plugin \<and>
   lib_calls (initializeMermaid Rev_innerHTML sample_host (initializeMermaid Rev_innerHTML sample_host fresh_plugin)) =
     [Initialize (initialize_config Rev_innerHTML sample_host)]"
proof -
  have ok: "mermaidInitialized (initializeMermaid Rev_innerHTML sample_host fresh_plugin)"
    by (simp add: initializeMermaid_def fresh_plugin_def sample_host_def Let_def)
  have fresh: "\<not> mermaidInitialized fresh_plugin" "lib_calls fresh_plugin = []"
    by (simp_all add: fresh_plugin_def)
  from ok initializeMermaid_idempotent
         [OF ok, of sample_host, unfolded if_not_P [OF fresh(1)] fresh(2) append_Nil]
  show ?thesis by (rule conjI)
qed

text \<open>While the configuration call keeps failing, every block gets the fixed message.\<close>

lemma process_blocks_keep_failing:
  assumes "\<not> mermaidInitialized s"
    and "\<forall>calls config. mermaid_initialize h calls config \<noteq> None"
  shows "\<not> mermaidInitialized (onload rv h s) \<and>
         fst (process_blocks rv h blocks (onload rv h s)) =
           map (\<lambda>(source, el, ctx). failed_to_initialize el) blocks \<and>
         \<not> mermaidInitialized (snd (process_blocks rv h blocks (onload rv h s)))"
proof -
  have step: "\<not> mermaidInitialized t \<Longrightarrow>
        fst (process_blocks rv h blocks t) =
          map (\<lambda>(source, el, ctx). failed_to_initialize el) blocks \<and>
        \<not> mermaidInitialized (snd (process_blocks rv h blocks t))" for t
  proof (induction blocks arbitrary: t)
    case Nil
    then show ?case by simp
  next
    case (Cons b blocks)
    obtain source el ctx where b: "b = (source, el, ctx)" by (cases b) auto
    let ?t' = "t\<lparr>lib_calls := lib_calls t @ [Initialize (initialize_config rv h)]\<rparr>"
    have r: "renderMermaid rv h source el ctx t = (failed_to_initialize el, ?t')"
      using Cons.prems assms(2) by (intro render_not_initialized) auto
    have "\<not> mermaidInitialized ?t'" using Cons.prems by simp
    from Cons.IH [OF this] show ?case
      by (auto simp: b r split: prod.splits)
  qed
  have "\<not> mermaidInitialized (onload rv h s)"
    using assms by (auto simp: onload_def initializeMermaid_def Let_def split: option.splits)
  with step show ?thesis by blast
qed

section \<open>Block render handler\<close>

lemma trim_whitespace_only:
  "\<forall>c\<in>set source. is_white_space c \<Longrightarrow> trim source = []"
proof -
  assume "\<forall>c\<in>set source. is_white_space c"
  then have blank: "dropWhile is_white_space source = []" by (induction source) auto
  show ?thesis unfolding trim_def blank by simp
qed

lemma addExportFunctionality_tag_class:
  "tagName (addExportFunctionality rv c) = tagName c \<and>
   classList (addExportFunctionality rv c) = classList c"
  by (cases rv) (simp_all add: addExportFunctionality_def Let_def set_style_def appendChild_def)

lemma attach_markup_tag_class:
  "attach_markup rv h svg c = Inr c' \<Longrightarrow> tagName c' = tagName c \<and> classList c' = classList c"
  by (cases rv)
     (auto simp: attach_markup_def Let_def addExportFunctionality_tag_class set_style_def
                 appendChild_def split: option.splits if_splits)

text \<open>With the library ready, the handler is the \<open>try\<close> block followed, on a failure, by
  the \<open>catch\<close> block.\<close>

lemma renderMermaid_ready:
  assumes "mermaidInitialized (initializeMermaid rv h s)"
  shows "renderMermaid rv h source el ctx s =
           (let container = new_el (js ''div'') None (Some (js ''mermaid-container''))
            in case renderMermaid_try rv h source (diagram_id h) container
                      (initializeMermaid rv h s) of
                 (Inr container', s') \<Rightarrow> (appendChild el container', s')
               | (Inl error, s') \<Rightarrow>
                   (renderMermaid_catch (appendChild el container) error source, s'))"
  using assms by (simp add: renderMermaid_def initialize_if_needed Let_def)

lemma renderMermaid_try_failure:
  assumes "per_render_failure rv h source s"
  shows "\<exists>error. fst (renderMermaid_try rv h source (diagram_id h) c s) = Inl error"
  using assms
  by (cases rv)
     (auto simp: per_render_failure_def renderMermaid_try_def attach_markup_def Let_def
           split: parse_outcome.splits sum.splits)


lemma renderMermaid_catch_children:
  "childNodes (renderMermaid_catch el error source) =
     childNodes el @
     [ElementNode (Element (js ''div'') [js ''mermaid-error''] [] []
        [ElementNode (Element (js ''div'') [js ''mermaid-error-message''] [] []
           [TextNode (js ''Mermaid Error: '' @
                      (if message error \<noteq> [] then message error else js ''Unknown error''))]),
         ElementNode (Element (js ''pre'') [] [] []
           [ElementNode (new_el (js ''code'') (Some source) (Some (js ''language-mermaid'')))])])]"
  by (simp add: renderMermaid_catch_def Let_def createEl_def appendChild_def new_el_def js_def)

lemma renderMermaid_failure_children:
  assumes "mermaidInitialized (initializeMermaid rv h s)"
    and "per_render_failure rv h source (initializeMermaid rv h s)"
  shows "\<exists>error. childNodes (fst (renderMermaid rv h source el ctx s)) =
           childNodes (renderMermaid_catch
             (appendChild el (new_el (js ''div'') None (Some (js ''mermaid-container''))))
             error source)"
proof -
  let ?c = "new_el (js ''div'') None (Some (js ''mermaid-container''))"
  obtain error where "fst (renderMermaid_try rv h source (diagram_id h) ?c
                            (initializeMermaid rv h s)) = Inl error"
    using renderMermaid_try_failure [OF assms(2)] by blast
  then have "fst (renderMermaid rv h source el ctx s) =
               renderMermaid_catch (appendChild el ?c) error source"
    by (auto simp: renderMermaid_ready [OF assms(1)] Let_def split: prod.splits)
  then show ?thesis by auto
qed

lemma textContent_new_el:
  "textContent (new_el tg (Some text) cls) = text"
  by (simp add: textContent_def new_el_def)

lemma renderMermaid_try_plugin:
  "mermaidInitialized (snd (renderMermaid_try rv h source ident c s)) = mermaidInitialized s \<and>
   (\<exists>new. lib_calls (snd (renderMermaid_try rv h source ident c s)) = lib_calls s @ new)"
  by (simp add: renderMermaid_try_def Let_def split: parse_outcome.splits sum.splits)

lemma renderMermaid_try_class:
  "fst (renderMermaid_try rv h source ident c s) = Inr c' \<Longrightarrow> classList c' = classList c"
  by (auto simp: renderMermaid_try_def Let_def attach_markup_tag_class
           split: if_splits parse_outcome.splits sum.splits)

lemma renderMermaid_same_initialization:
  "initializeMermaid rv h s = initializeMermaid rv h t \<Longrightarrow>
   renderMermaid rv h source el ctx s = renderMermaid rv h source el ctx t"
  by (simp add: renderMermaid_def initialize_if_needed)

lemma renderMermaid_ready_plugin:
  assumes "mermaidInitialized (initializeMermaid rv h s)"
  shows "mermaidInitialized (snd (renderMermaid rv h source el ctx s)) \<and>
         (\<exists>new. lib_calls (snd (renderMermaid rv h source el ctx s)) =
                  lib_calls (initializeMermaid rv h s) @ new)"
proof -
  let ?c = "new_el (js ''div'') None (Some (js ''mermaid-container''))"
  let ?t = "renderMermaid_try rv h source (diagram_id h) ?c (initializeMermaid rv h s)"
  have "snd (renderMermaid rv h source el ctx s) = snd ?t"
    by (simp add: renderMermaid_ready [OF assms] Let_def split: prod.splits sum.splits)
  with assms renderMermaid_try_plugin [of rv h source "diagram_id h" ?c "initializeMermaid rv h s"]
  show ?thesis by simp
qed

lemma renderMermaid_ready_first_child:
  assumes "mermaidInitialized (initializeMermaid rv h s)"
  shows "\<exists>c others. childNodes (fst (renderMermaid rv h source el ctx s)) =
                      childNodes el @ ElementNode c # others \<and>
                    classList c = [js ''mermaid-container'']"
proof -
  let ?c = "new_el (js ''div'') None (Some (js ''mermaid-container''))"
  let ?t = "renderMermaid_try rv h source (diagram_id h) ?c (initializeMermaid rv h s)"
  have cls: "classList ?c = [js ''mermaid-container'']" by (simp add: new_el_def)
  show ?thesis
  proof (cases "fst ?t")
    case (Inl error)
    then have "fst (renderMermaid rv h source el ctx s) =
                 renderMermaid_catch (appendChild el ?c) error source"
      by (auto simp: renderMermaid_ready [OF assms] Let_def split: prod.splits)
    then have "childNodes (fst (renderMermaid rv h source el ctx s)) =
                 childNodes el @ ElementNode ?c #
                 [ElementNode (Element (js ''div'') [js ''mermaid-error''] [] []
        [ElementNode (Element (js ''div'') [js ''mermaid-error-message''] [] []
           [TextNode (js ''Mermaid Error: '' @
                      (if message error \<noteq> [] then message error else js ''Unknown error''))]),
         ElementNode (Element (js ''pre'') [] [] []
           [ElementNode (new_el (js ''code'') (Some source) (Some (js ''language-mermaid'')))])])]"
      by (simp add: renderMermaid_catch_children appendChild_def)
    with cls show ?thesis by blast
  next
    case (Inr c')
    then have "fst (renderMermaid rv h source el ctx s) = appendChild el c'"
      by (auto simp: renderMermaid_ready [OF assms] Let_def split: prod.splits)
    then have "childNodes (fst (renderMermaid rv h source el ctx s)) =
                 childNodes el @ ElementNode c' # []"
      by (simp add: appendChild_def)
    moreover have "classList c' = [js ''mermaid-container'']"
      using renderMermaid_try_class [OF Inr] cls by simp
    ultimately show ?thesis by blast
  qed
qed

lemma failed_to_initialize_children:
  "childNodes (failed_to_initialize el) =
     childNodes el @
     [ElementNode (Element (js ''div'') [js ''mermaid-error''] [] []
        [TextNode (js ''Failed to initialize Mermaid library'')])]"
  by (simp add: failed_to_initialize_def createEl_def appendChild_def new_el_def js_def)

text \<open>
  C3. For an input that is empty or consists of white space only, the handler appends an
  element of class \<open>mermaid-error\<close> under the output element, and the library calls it
  makes contain no render call (and no syntax check either): at most the configuration
  call of an initialization that had not happened yet.
\<close>

theorem blank_input_never_rendered:
  assumes "\<forall>c\<in>set source. is_white_space c"
  shows "\<exists>before block new.
           childNodes (fst (renderMermaid rv h source el ctx s)) =
             childNodes el @ before @ [ElementNode block] \<and>
           classList block = [js ''mermaid-error''] \<and>
           lib_calls (snd (renderMermaid rv h source el ctx s)) = lib_calls s @ new \<and>
           (\<forall>ident text. Render ident text \<notin> set new) \<and>
           (\<forall>text. Parse text \<notin> set new)"
proof (cases "mermaidInitialized (initializeMermaid rv h s)")
  case False
  then have ni: "\<not> mermaidInitialized s"
    by (auto simp: initializeMermaid_def)
  with False have "mermaid_initialize h (lib_calls s) (initialize_config rv h) \<noteq> None"
    by (auto simp: initializeMermaid_def Let_def split: option.splits)
  from render_not_initialized [OF ni this]
  have r: "renderMermaid rv h source el ctx s =
             (failed_to_initialize el,
              s\<lparr>lib_calls := lib_calls s @ [Initialize (initialize_config rv h)]\<rparr>)" .
  let ?block = "new_el (js ''div'') (Some (js ''Failed to initialize Mermaid library''))
                       (Some (js ''mermaid-error''))"
  have a: "childNodes (fst (renderMermaid rv h source el ctx s)) =
             childNodes el @ [] @ [ElementNode ?block]"
    by (simp add: r failed_to_initialize_def createEl_def appendChild_def)
  have b: "classList ?block = [js ''mermaid-error'']" by (simp add: new_el_def)
  have c: "lib_calls (snd (renderMermaid rv h source el ctx s)) =
             lib_calls s @ [Initialize (initialize_config rv h)]"
    by (simp add: r)
  have d: "\<forall>ident text. Render ident text \<notin> set [Initialize (initialize_config rv h)]"
    "\<forall>text. Parse text \<notin> set [Initialize (initialize_config rv h)]"
    by simp_all
  from a b c d show ?thesis by blast
next
  case True
  have empty: "trim source = []" using assms by (rule trim_whitespace_only)
  let ?c = "new_el (js ''div'') None (Some (js ''mermaid-container''))"
  let ?e = "Error (js ''Empty Mermaid diagram'')"
  have r: "renderMermaid rv h source el ctx s =
             (renderMermaid_catch (appendChild el ?c) ?e source, initializeMermaid rv h s)"
    by (simp add: renderMermaid_ready [OF True] renderMermaid_try_def empty Let_def)
  have calls: "\<exists>new. lib_calls (initializeMermaid rv h s) = lib_calls s @ new \<and>
                 (\<forall>ident text. Render ident text \<notin> set new) \<and> (\<forall>text. Parse text \<notin> set new)"
    by (auto simp: initializeMermaid_def Let_def split: option.splits)
  then obtain new where new: "lib_calls (initializeMermaid rv h s) = lib_calls s @ new"
      "\<forall>ident text. Render ident text \<notin> set new" "\<forall>text. Parse text \<notin> set new"
    by blast
  let ?block = "Element (js ''div'') [js ''mermaid-error''] [] []
        [ElementNode (Element (js ''div'') [js ''mermaid-error-message''] [] []
           [TextNode (js ''Mermaid Error: '' @
                      (if message ?e \<noteq> [] then message ?e else js ''Unknown error''))]),
         ElementNode (Element (js ''pre'') [] [] []
           [ElementNode (new_el (js ''code'') (Some source) (Some (js ''language-mermaid'')))])]"
  have a: "childNodes (fst (renderMermaid rv h source el ctx s)) =
             childNodes el @ [ElementNode ?c] @ [ElementNode ?block]"
    by (simp add: r renderMermaid_catch_children appendChild_def)
  have b: "classList ?block = [js ''mermaid-error'']" by simp
  have c: "lib_calls (snd (renderMermaid rv h source el ctx s)) = lib_calls s @ new"
    by (simp add: r new)
  from a b c new(2,3) show ?thesis by blast
qed


theorem blank_input_never_rendered_witness:
  "is_white_space 0x20 \<and> is_white_space 0x0A \<and> is_white_space 0x3000 \<and>
   (\<exists>before block new.
      childNodes (fst (renderMermaid Rev_DOMParser sample_host [0x20, 0x0A, 0x3000] sample_el
                         sample_context fresh_plugin)) =
        childNodes sample_el @ before @ [ElementNode block] \<and>
      classList block = [js ''mermaid-error''] \<and>
      lib_calls (snd (renderMermaid Rev_DOMParser sample_host [0x20, 0x0A, 0x3000] sample_el
                        sample_context fresh_plugin)) = lib_calls fresh_plugin @ new \<and>
      (\<forall>ident text. Render ident text \<notin> set new) \<and>
      (\<forall>text. Parse text \<notin> set new))"
proof -
  have blank: "\<forall>c\<in>set [0x20, 0x0A, 0x3000]. is_white_space c"
    by (simp add: is_white_space_def)
  have each: "is_white_space 0x20" "is_white_space 0x0A" "is_white_space 0x3000"
    by (simp_all add: is_white_space_def)
  from each blank_input_never_rendered [OF blank] show ?thesis by (intro conjI)
qed

text \<open>
  C4 (as amended). With the library initialized, at the latest by the initialization the
  render attempt itself runs, every per-render failure (empty input, invalid
  syntax, a failing render call, malformed markup) ends with an error block appended under
  the output element: an element of class \<open>mermaid-error\<close> holding a message element, whose
  text is \<open>Mermaid Error: \<close> followed by a non-empty message, and a \<open>pre\<close> element holding a
  \<open>code\<close> element whose text content is the source as received, untrimmed.
\<close>

theorem error_block_keeps_source:
  assumes "mermaidInitialized (initializeMermaid rv h s)"
    and "per_render_failure rv h source (initializeMermaid rv h s)"
  shows "\<exists>before msg code.
           childNodes (fst (renderMermaid rv h source el ctx s)) =
             childNodes el @ before @
             [ElementNode (Element (js ''div'') [js ''mermaid-error''] [] []
                [ElementNode (Element (js ''div'') [js ''mermaid-error-message''] [] []
                   [TextNode (js ''Mermaid Error: '' @ msg)]),
                 ElementNode (Element (js ''pre'') [] [] [] [ElementNode code])])] \<and>
           msg \<noteq> [] \<and>
           tagName code = js ''code'' \<and>
           textContent code = source"
proof -
  let ?c = "new_el (js ''div'') None (Some (js ''mermaid-container''))"
  obtain error where children:
    "childNodes (fst (renderMermaid rv h source el ctx s)) =
       childNodes (renderMermaid_catch (appendChild el ?c) error source)"
    using renderMermaid_failure_children [OF assms] by blast
  let ?msg = "if message error \<noteq> [] then message error else js ''Unknown error''"
  let ?code = "new_el (js ''code'') (Some source) (Some (js ''language-mermaid''))"
  have a: "childNodes (fst (renderMermaid rv h source el ctx s)) =
             childNodes el @ [ElementNode ?c] @
             [ElementNode (Element (js ''div'') [js ''mermaid-error''] [] []
                [ElementNode (Element (js ''div'') [js ''mermaid-error-message''] [] []
                   [TextNode (js ''Mermaid Error: '' @ ?msg)]),
                 ElementNode (Element (js ''pre'') [] [] [] [ElementNode ?code])])]"
    by (simp add: children renderMermaid_catch_children appendChild_def)
  have b: "?msg \<noteq> []" by (simp add: js_def)
  have c: "tagName ?code = js ''code''" by (simp add: new_el_def)
  have d: "textContent ?code = source" by (rule textContent_new_el)
  from a b c d show ?thesis by blast
qed

theorem error_block_keeps_source_witness:
  "mermaidInitialized (initializeMermaid Rev_DOMParser rejecting_host fresh_plugin) \<and>
   per_render_failure Rev_DOMParser rejecting_host (js '' graph TD '')
     (initializeMermaid Rev_DOMParser rejecting_host fresh_plugin) \<and>
   (\<exists>before msg code.
      childNodes (fst (renderMermaid Rev_DOMParser rejecting_host (js '' graph TD '') sample_el
                         sample_context fresh_plugin)) =
        childNodes sample_el @ before @
        [ElementNode (Element (js ''div'') [js ''mermaid-error''] [] []
           [ElementNode (Element (js ''div'') [js ''mermaid-error-message''] [] []
              [TextNode (js ''Mermaid Error: '' @ msg)]),
            ElementNode (Element (js ''pre'') [] [] [] [ElementNode code])])] \<and>
      msg \<noteq> [] \<and>
      tagName code = js ''code'' \<and>
      textContent code = js '' graph TD '')"
proof -
  have ready: "mermaidInitialized (initializeMermaid Rev_DOMParser rejecting_host fresh_plugin)"
    by (simp add: initializeMermaid_def rejecting_host_def sample_host_def fresh_plugin_def Let_def)
  have failure: "per_render_failure Rev_DOMParser rejecting_host (js '' graph TD '')
                   (initializeMermaid Rev_DOMParser rejecting_host fresh_plugin)"
    by (simp add: per_render_failure_def rejecting_host_def sample_host_def)
  from ready failure error_block_keeps_source [OF ready failure] show ?thesis
    by (intro conjI)
qed

text \<open>
  C4, the claim as stated, fails while the library cannot be initialized: the handler
  returns before the \<open>try\<close> block, and a text that the library would reject gets the fixed
  message alone, without the source text.
\<close>

theorem uninitialized_hides_source_counterexample:
  "mermaid_parse unready_rejecting_host
     (lib_calls (initializeMermaid Rev_DOMParser unready_rejecting_host fresh_plugin))
     (trim (js '' graph TD '')) = ParseFalsy \<and>
   childNodes (fst (renderMermaid Rev_DOMParser unready_rejecting_host (js '' graph TD '')
                      sample_el sample_context fresh_plugin)) =
     [ElementNode (Element (js ''div'') [js ''mermaid-error''] [] []
        [TextNode (js ''Failed to initialize Mermaid library'')])] \<and>
   textContent (fst (renderMermaid Rev_DOMParser unready_rejecting_host (js '' graph TD '')
                       sample_el sample_context fresh_plugin)) =
     js ''Failed to initialize Mermaid library''"
proof -
  have a: "mermaid_parse unready_rejecting_host
     (lib_calls (initializeMermaid Rev_DOMParser unready_rejecting_host fresh_plugin))
     (trim (js '' graph TD '')) = ParseFalsy"
    by (simp add: unready_rejecting_host_def failing_host_def sample_host_def)
  have fresh: "\<not> mermaidInitialized fresh_plugin"
    by (simp add: fresh_plugin_def)
  have fails: "mermaid_initialize unready_rejecting_host (lib_calls fresh_plugin)
                 (initialize_config Rev_DOMParser unready_rejecting_host) \<noteq> None"
    by (simp add: unready_rejecting_host_def failing_host_def sample_host_def)
  have r: "fst (renderMermaid Rev_DOMParser unready_rejecting_host (js '' graph TD '')
                  sample_el sample_context fresh_plugin) = failed_to_initialize sample_el"
    by (simp add: render_not_initialized [OF fresh fails])
  have b: "childNodes (failed_to_initialize sample_el) =
     [ElementNode (Element (js ''div'') [js ''mermaid-error''] [] []
        [TextNode (js ''Failed to initialize Mermaid library'')])]"
    by (simp add: failed_to_initialize_def createEl_def appendChild_def new_el_def sample_el_def
                  js_def)
  then have c: "textContent (failed_to_initialize sample_el) =
                  js ''Failed to initialize Mermaid library''"
    by (simp add: textContent_def)
  from a b c show ?thesis unfolding r by (intro conjI)
qed

text \<open>
  C10. The failure path does not restore the output element: after a per-render failure
  the children of the output element are the former ones, then the container created at
  the start of the attempt, still empty, then the error block.
\<close>

theorem failure_leaves_empty_container:
  assumes "mermaidInitialized (initializeMermaid rv h s)"
    and "per_render_failure rv h source (initializeMermaid rv h s)"
  shows "\<exists>block.
           childNodes (fst (renderMermaid rv h source el ctx s)) =
             childNodes el @
             [ElementNode (Element (js ''div'') [js ''mermaid-container''] [] [] []),
              ElementNode block] \<and>
           classList block = [js ''mermaid-error''] \<and>
           fst (renderMermaid rv h source el ctx s) \<noteq> el"
proof -
  let ?c = "new_el (js ''div'') None (Some (js ''mermaid-container''))"
  obtain error where children:
    "childNodes (fst (renderMermaid rv h source el ctx s)) =
       childNodes (renderMermaid_catch (appendChild el ?c) error source)"
    using renderMermaid_failure_children [OF assms] by blast
  let ?block = "Element (js ''div'') [js ''mermaid-error''] [] []
        [ElementNode (Element (js ''div'') [js ''mermaid-error-message''] [] []
           [TextNode (js ''Mermaid Error: '' @
                      (if message error \<noteq> [] then message error else js ''Unknown error''))]),
         ElementNode (Element (js ''pre'') [] [] []
           [ElementNode (new_el (js ''code'') (Some source) (Some (js ''language-mermaid'')))])]"
  have a: "childNodes (fst (renderMermaid rv h source el ctx s)) =
             childNodes el @
             [ElementNode (Element (js ''div'') [js ''mermaid-container''] [] [] []),
              ElementNode ?block]"
    by (simp add: children renderMermaid_catch_children appendChild_def new_el_def)
  have b: "classList ?block = [js ''mermaid-error'']" by simp
  from a have "length (childNodes (fst (renderMermaid rv h source el ctx s))) \<noteq>
                 length (childNodes el)"
    by simp
  then have c: "fst (renderMermaid rv h source el ctx s) \<noteq> el" by auto
  from a b c show ?thesis by blast
qed

theorem failure_leaves_empty_container_witness:
  "mermaidInitialized (initializeMermaid Rev_innerHTML rejecting_host fresh_plugin) \<and>
   per_render_failure Rev_innerHTML rejecting_host (js ''graph'')
     (initializeMermaid Rev_innerHTML rejecting_host fresh_plugin) \<and>
   (\<exists>block.
      childNodes (fst (renderMermaid Rev_innerHTML rejecting_host (js ''graph'') sample_el
                         sample_context fresh_plugin)) =
        childNodes sample_el @
        [ElementNode (Element (js ''div'') [js ''mermaid-container''] [] [] []),
         ElementNode block] \<and>
      classList block = [js ''mermaid-error''] \<and>
      fst (renderMermaid Rev_innerHTML rejecting_host (js ''graph'') sample_el sample_context
             fresh_plugin) \<noteq> sample_el)"
proof -
  have ready: "mermaidInitialized (initializeMermaid Rev_innerHTML rejecting_host fresh_plugin)"
    by (simp add: initializeMermaid_def rejecting_host_def sample_host_def fresh_plugin_def Let_def)
  have failure: "per_render_failure Rev_innerHTML rejecting_host (js ''graph'')
                   (initializeMermaid Rev_innerHTML rejecting_host fresh_plugin)"
    by (simp add: per_render_failure_def rejecting_host_def sample_host_def)
  from ready failure failure_leaves_empty_container [OF ready failure] show ?thesis
    by (intro conjI)
qed

subsection \<open>Evaluation at sample inputs\<close>

lemma trim_graph_TD: "trim (js ''graph TD'') = js ''graph TD''"
  by (simp add: trim_def is_white_space_def js_def)

lemma js_nonempty: "js (c # cs) \<noteq> []"
  by (simp add: js_def)

lemma export_button_absent:
  "querySelector_class (Element tg cl at st [ElementNode (Element tg' [] at' st' [])]) c = None"
  by (simp add: querySelector_class_def)

lemma recovering_onload:
  "onload Rev_DOMParser recovering_host fresh_plugin =
     \<lparr>mermaidInitialized = False,
      lib_calls = [Initialize (initialize_config Rev_DOMParser recovering_host)],
      notices = [], files = []\<rparr>"
  by (simp add: onload_def initializeMermaid_def recovering_host_def fresh_plugin_def Let_def)

text \<open>
  C2 (as amended). After a failed initialization the ready flag is false, and every
  render attempt made while it is false runs the initialization again, with one more
  configuration call to the library. If that call fails, the flag stays false and the
  attempt shows the fixed message and nothing else; so as long as the configuration call
  keeps failing, every render attempt shows the fixed message. If that call succeeds, the
  flag becomes true and the attempt is the render attempt of an initialized plugin: it
  does not show the fixed message.
\<close>

theorem initialization_failure_persists:
  assumes "\<not> mermaidInitialized s"
  shows "(\<exists>new. lib_calls (snd (renderMermaid rv h source el ctx s)) =
                  lib_calls s @ Initialize (initialize_config rv h) # new) \<and>
         (mermaid_initialize h (lib_calls s) (initialize_config rv h) \<noteq> None \<longrightarrow>
            \<not> mermaidInitialized (onload rv h s) \<and>
            renderMermaid rv h source el ctx s =
              (failed_to_initialize el,
               s\<lparr>lib_calls := lib_calls s @ [Initialize (initialize_config rv h)]\<rparr>)) \<and>
         (mermaid_initialize h (lib_calls s) (initialize_config rv h) = None \<longrightarrow>
            renderMermaid rv h source el ctx s =
              renderMermaid rv h source el ctx
                (s\<lparr>lib_calls := lib_calls s @ [Initialize (initialize_config rv h)],
                   mermaidInitialized := True\<rparr>) \<and>
            mermaidInitialized (snd (renderMermaid rv h source el ctx s)) \<and>
            fst (renderMermaid rv h source el ctx s) \<noteq> failed_to_initialize el) \<and>
         ((\<forall>calls config. mermaid_initialize h calls config \<noteq> None) \<longrightarrow>
            \<not> mermaidInitialized (onload rv h s) \<and>
            fst (process_blocks rv h blocks (onload rv h s)) =
              map (\<lambda>(source, el, ctx). failed_to_initialize el) blocks \<and>
            \<not> mermaidInitialized (snd (process_blocks rv h blocks (onload rv h s))))"
proof (intro conjI impI)
  let ?config = "initialize_config rv h"
  let ?failed = "s\<lparr>lib_calls := lib_calls s @ [Initialize ?config]\<rparr>"
  let ?ready = "s\<lparr>lib_calls := lib_calls s @ [Initialize ?config], mermaidInitialized := True\<rparr>"
  have calls: "lib_calls (initializeMermaid rv h s) = lib_calls s @ [Initialize ?config]"
    using assms by (simp add: initializeMermaid_def Let_def split: option.splits)
  show "\<exists>new. lib_calls (snd (renderMermaid rv h source el ctx s)) =
                lib_calls s @ Initialize ?config # new"
  proof (cases "mermaidInitialized (initializeMermaid rv h s)")
    case True
    from renderMermaid_ready_plugin [OF True] obtain new where
      "lib_calls (snd (renderMermaid rv h source el ctx s)) =
         lib_calls (initializeMermaid rv h s) @ new"
      by blast
    then show ?thesis by (simp add: calls)
  next
    case False
    then have "mermaid_initialize h (lib_calls s) ?config \<noteq> None"
      using assms by (auto simp: initializeMermaid_def Let_def split: option.splits)
    from render_not_initialized [OF assms this] show ?thesis by simp
  qed
  {
    assume fails: "mermaid_initialize h (lib_calls s) ?config \<noteq> None"
    show "\<not> mermaidInitialized (onload rv h s)"
      using assms fails
      by (auto simp: onload_def initializeMermaid_def Let_def split: option.splits)
    show "renderMermaid rv h source el ctx s = (failed_to_initialize el, ?failed)"
      using assms fails by (rule render_not_initialized)
  }
  {
    assume works: "mermaid_initialize h (lib_calls s) ?config = None"
    have init: "initializeMermaid rv h s = ?ready"
      using assms works by (simp add: initializeMermaid_def Let_def)
    have again: "initializeMermaid rv h ?ready = ?ready"
      by (simp add: initializeMermaid_def)
    have ready: "mermaidInitialized (initializeMermaid rv h s)"
      by (simp add: init)
    show "renderMermaid rv h source el ctx s = renderMermaid rv h source el ctx ?ready"
      by (rule renderMermaid_same_initialization) (simp only: init again)
    show "mermaidInitialized (snd (renderMermaid rv h source el ctx s))"
      using renderMermaid_ready_plugin [OF ready] by blast
    from renderMermaid_ready_first_child [OF ready] obtain c others where first:
      "childNodes (fst (renderMermaid rv h source el ctx s)) =
         childNodes el @ ElementNode c # others"
      "classList c = [js ''mermaid-container'']"
      by blast
    have "js ''mermaid-container'' \<noteq> js ''mermaid-error''"
      by (simp add: js_def)
    with first have "childNodes (fst (renderMermaid rv h source el ctx s)) \<noteq>
                       childNodes (failed_to_initialize el)"
      by (auto simp: failed_to_initialize_children)
    then show "fst (renderMermaid rv h source el ctx s) \<noteq> failed_to_initialize el"
      by auto
  }
  {
    assume always: "\<forall>calls config. mermaid_initialize h calls config \<noteq> None"
    from process_blocks_keep_failing [OF assms always, of rv blocks]
    show "\<not> mermaidInitialized (onload rv h s)"
      and "fst (process_blocks rv h blocks (onload rv h s)) =
             map (\<lambda>(source, el, ctx). failed_to_initialize el) blocks"
      and "\<not> mermaidInitialized (snd (process_blocks rv h blocks (onload rv h s)))"
      by simp_all
  }
qed

theorem initialization_failure_persists_witness:
  "\<not> mermaidInitialized fresh_plugin \<and>
   (\<forall>calls config. mermaid_initialize failing_host calls config \<noteq> None) \<and>
   fst (process_blocks Rev_innerHTML failing_host
          [(js ''graph TD'', sample_el, sample_context), (js ''pie'', sample_el, sample_context)]
          (onload Rev_innerHTML failing_host fresh_plugin)) =
     [failed_to_initialize sample_el, failed_to_initialize sample_el] \<and>
   \<not> mermaidInitialized (onload Rev_DOMParser recovering_host fresh_plugin) \<and>
   mermaid_initialize recovering_host
     (lib_calls (onload Rev_DOMParser recovering_host fresh_plugin))
     (initialize_config Rev_DOMParser recovering_host) = None \<and>
   mermaidInitialized
     (snd (renderMermaid Rev_DOMParser recovering_host (js ''graph TD'') sample_el sample_context
            (onload Rev_DOMParser recovering_host fresh_plugin)))"
proof -
  have fresh: "\<not> mermaidInitialized fresh_plugin"
    by (simp add: fresh_plugin_def)
  have fails: "\<forall>calls config. mermaid_initialize failing_host calls config \<noteq> None"
    by (simp add: failing_host_def sample_host_def)
  from initialization_failure_persists
         [OF fresh, where h = failing_host and rv = Rev_innerHTML and blocks =
            "[(js ''graph TD'', sample_el, sample_context), (js ''pie'', sample_el, sample_context)]"]
       fails
  have "fst (process_blocks Rev_innerHTML failing_host
          [(js ''graph TD'', sample_el, sample_context), (js ''pie'', sample_el, sample_context)]
          (onload Rev_innerHTML failing_host fresh_plugin)) =
     map (\<lambda>(source, el, ctx). failed_to_initialize el)
       [(js ''graph TD'', sample_el, sample_context), (js ''pie'', sample_el, sample_context)]"
    by blast
  then have a: "fst (process_blocks Rev_innerHTML failing_host
          [(js ''graph TD'', sample_el, sample_context), (js ''pie'', sample_el, sample_context)]
          (onload Rev_innerHTML failing_host fresh_plugin)) =
     [failed_to_initialize sample_el, failed_to_initialize sample_el]"
    by simp
  have unready: "\<not> mermaidInitialized (onload Rev_DOMParser recovering_host fresh_plugin)"
    unfolding recovering_onload by simp
  have works: "mermaid_initialize recovering_host
     (lib_calls (onload Rev_DOMParser recovering_host fresh_plugin))
     (initialize_config Rev_DOMParser recovering_host) = None"
    unfolding recovering_onload by (simp add: recovering_host_def)
  from initialization_failure_persists
         [OF unready, where h = recovering_host and rv = Rev_DOMParser and
            source = "js ''graph TD''" and el = sample_el and ctx = sample_context]
       works
  have b: "mermaidInitialized
     (snd (renderMermaid Rev_DOMParser recovering_host (js ''graph TD'') sample_el sample_context
            (onload Rev_DOMParser recovering_host fresh_plugin)))"
    by blast
  from fresh fails a unready works b show ?thesis by (intro conjI)
qed

text \<open>
  C2, the claim as stated, fails: the configuration call throws during \<open>onload\<close>, the flag
  is false, and the next render attempt initializes the library and attaches a diagram
  container instead of the fixed message.
\<close>

theorem initialization_recovers_counterexample:
  "\<not> mermaidInitialized (onload Rev_DOMParser recovering_host fresh_plugin) \<and>
   mermaidInitialized
     (snd (renderMermaid Rev_DOMParser recovering_host (js ''graph TD'') sample_el sample_context
            (onload Rev_DOMParser recovering_host fresh_plugin))) \<and>
   fst (renderMermaid Rev_DOMParser recovering_host (js ''graph TD'') sample_el sample_context
          (onload Rev_DOMParser recovering_host fresh_plugin)) \<noteq>
     failed_to_initialize sample_el"
proof -
  let ?s = "onload Rev_DOMParser recovering_host fresh_plugin"
  let ?c = "new_el (js ''div'') None (Some (js ''mermaid-container''))"
  let ?s1 = "initializeMermaid Rev_DOMParser recovering_host ?s"
  have a: "\<not> mermaidInitialized ?s"
    unfolding recovering_onload by simp
  have s1: "?s1 = \<lparr>mermaidInitialized = True,
      lib_calls = [Initialize (initialize_config Rev_DOMParser recovering_host),
                   Initialize (initialize_config Rev_DOMParser recovering_host)],
      notices = [], files = []\<rparr>"
    unfolding recovering_onload
    by (simp add: initializeMermaid_def recovering_host_def Let_def)
  have ready: "mermaidInitialized ?s1"
    unfolding s1 by simp
  have body: "renderMermaid_try Rev_DOMParser recovering_host (js ''graph TD'')
                (diagram_id recovering_host) ?c ?s1 =
             (Inr (addExportFunctionality Rev_DOMParser (appendChild ?c sample_svg)),
              ?s1\<lparr>lib_calls := lib_calls ?s1 @ [Parse (js ''graph TD''),
                  Render (diagram_id recovering_host) (js ''graph TD'')]\<rparr>)"
    unfolding s1
    by (simp add: renderMermaid_try_def trim_graph_TD js_nonempty Let_def attach_markup_def
                  recovering_host_def sample_host_def sample_svg_def)
  have r: "renderMermaid Rev_DOMParser recovering_host (js ''graph TD'') sample_el sample_context ?s =
             (appendChild sample_el (addExportFunctionality Rev_DOMParser (appendChild ?c sample_svg)),
              ?s1\<lparr>lib_calls := lib_calls ?s1 @ [Parse (js ''graph TD''),
                  Render (diagram_id recovering_host) (js ''graph TD'')]\<rparr>)"
    by (simp add: renderMermaid_ready [OF ready] body Let_def)
  have b: "mermaidInitialized (snd (renderMermaid Rev_DOMParser recovering_host (js ''graph TD'')
             sample_el sample_context ?s))"
    unfolding r using ready by simp
  have "classList (addExportFunctionality Rev_DOMParser (appendChild ?c sample_svg)) \<noteq>
          [js ''mermaid-error'']"
    by (simp add: addExportFunctionality_tag_class appendChild_def new_el_def js_def)
  then have c: "fst (renderMermaid Rev_DOMParser recovering_host (js ''graph TD'') sample_el
                  sample_context ?s) \<noteq> failed_to_initialize sample_el"
    unfolding r
    by (auto simp: failed_to_initialize_def createEl_def appendChild_def new_el_def)
  from a b c show ?thesis by (intro conjI)
qed








section \<open>Export\<close>

lemma lastIndexOf_from_absent:
  "c \<notin> set xs \<Longrightarrow> lastIndexOf_from xs c i found = found"
  by (induction xs arbitrary: i) auto

lemma lastIndexOf_from_last:
  "c \<notin> set f \<Longrightarrow> lastIndexOf_from (d @ c # f) c i found = i + int (length d)"
  by (induction d arbitrary: i found) (auto simp: lastIndexOf_from_absent)

lemma currentDir_last_slash:
  assumes "or_empty (sourcePath ctx) = d @ slash # f" and "slash \<notin> set f"
  shows "currentDir ctx = d"
  using assms
  by (simp add: currentDir_def Let_def str_includes_def substring0_def lastIndexOf_def
                lastIndexOf_from_last)


lemma exportAsSVG_files:
  assumes "exportAsSVG h container ctx s = (r, s')" and "files s' \<noteq> files s"
  shows "\<exists>svgElement.
           querySelector_tag container (js ''svg'') = Some svgElement \<and>
           files s' = files s @
             [(filePath (currentDir ctx)
                 (js ''mermaid-diagram-'' @ number_to_string (date_now h) @ js ''.svg''),
               TextFile (xml_declaration @ [line_feed] @ doctype_declaration @ [line_feed] @
                         serializeToString h (cloneNode svgElement)))]"
  using assms
  by (auto simp: exportAsSVG_def Let_def show_notice_def split: option.splits)

lemma canvas_size_kept:
  "canvas_width (fillRect c w ht) = canvas_width c"
  "canvas_height (fillRect c w ht) = canvas_height c"
  "canvas_width (drawImage h c img w ht) = canvas_width c"
  "canvas_height (drawImage h c img w ht) = canvas_height c"
  by (simp_all add: fillRect_def drawImage_def)

lemma exportAsPNG_files:
  assumes "exportAsPNG h container ctx s = (r, s')" and "files s' \<noteq> files s"
  shows "\<exists>svgElement img.
           querySelector_tag container (js ''svg'') = Some svgElement \<and>
           image_load h (js ''data:image/svg+xml;charset=utf-8,'' @
                         encodeURIComponent h (serializeToString h svgElement)) = Some img \<and>
           files s' = files s @
             [(filePath (currentDir ctx)
                 (js ''mermaid-diagram-'' @ number_to_string (date_now h) @ js ''.png''),
               PngFile (export_width h * 2) (export_height h * 2)
                 (bitmap (drawImage h
                    (fillRect
                       (createCanvas\<lparr>canvas_width := export_width h * 2,
                                      canvas_height := export_height h * 2,
                                      transform_scale := 2, fillStyle := white\<rparr>)
                       (export_width h) (export_height h))
                    img (export_width h) (export_height h))))]"
  using assms
  by (auto simp: exportAsPNG_def Let_def show_notice_def canvas_size_kept
           split: option.splits if_splits blob_outcome.splits)


lemma sample_container_svg:
  "querySelector_tag sample_container (js ''svg'') = Some sample_svg"
  by (simp add: querySelector_tag_def sample_container_def sample_svg_def)

lemma number_to_string_7: "number_to_string 7 = js ''7''"
  by (simp add: number_to_string.simps [of 7] js_def)

lemma sample_currentDir: "currentDir sample_context = js ''notes''"
proof -
  have "or_empty (sourcePath sample_context) = js ''notes'' @ slash # js ''plan.md''"
    by (simp add: sample_context_def or_empty_def js_def slash_def)
  moreover have "slash \<notin> set (js ''plan.md'')"
    by (simp add: js_def slash_def)
  ultimately show ?thesis by (rule currentDir_last_slash)
qed

lemma sample_exportAsSVG:
  "exportAsSVG sample_host sample_container ctx fresh_plugin =
     (Fulfilled,
      \<lparr>mermaidInitialized = False, lib_calls = [],
       notices = [js ''SVG exported as '' @ js ''mermaid-diagram-7.svg''],
       files = [(filePath (currentDir ctx) (js ''mermaid-diagram-7.svg''),
                 TextFile (xml_declaration @ [line_feed] @ doctype_declaration @ [line_feed] @
                           js ''<svg/>''))]\<rparr>)"
  unfolding exportAsSVG_def sample_container_svg
  by (simp add: Let_def show_notice_def number_to_string_7 sample_host_def fresh_plugin_def
                cloneNode_def js_def)

lemma find_first_descendants:
  "find_first p ns = (case filter p (descendants ns) of [] \<Rightarrow> None | e # others \<Rightarrow> Some e)"
  by (induction p ns rule: find_first.induct) (auto split: list.splits option.splits)

lemma exportAsSVG_text:
  \<open>xml_declaration @ [line_feed] @ doctype_declaration @ [line_feed] @ markup =
     js ''<?xml version="1.0" encoding="UTF-8"?>'' @ [0x0A] @
     js ''<!DOCTYPE svg PUBLIC "-//W3C//DTD SVG 1.1//EN" "http://www.w3.org/Graphics/SVG/1.1/DTD/svg11.dtd">'' @
     [0x0A] @ markup\<close>
  by (simp add: xml_declaration_def doctype_declaration_def line_feed_def)

text \<open>
  C6. Whenever the vector export writes a file, the text written is the XML declaration
  \<open><?xml version="1.0" encoding="UTF-8"?>\<close>, a line feed, the SVG 1.1 document-type
  declaration, a line feed, and the serialized markup of the rendered visual, the first
  \<open>svg\<close> element below the container in document order, in that order. The element
  serialized is a deep copy, so it is the visual as a value.
\<close>

theorem exportAsSVG_document:
  assumes \<open>exportAsSVG h container ctx s = (r, s')\<close> and \<open>files s' \<noteq> files s\<close>
  shows \<open>\<exists>path svgElement others.
           filter (\<lambda>x. tagName x = js ''svg'') (descendants (childNodes container)) =
             svgElement # others \<and>
           files s' = files s @
             [(path, TextFile
                 (js ''<?xml version="1.0" encoding="UTF-8"?>'' @ [0x0A] @
                  js ''<!DOCTYPE svg PUBLIC "-//W3C//DTD SVG 1.1//EN" "http://www.w3.org/Graphics/SVG/1.1/DTD/svg11.dtd">'' @
                  [0x0A] @ serializeToString h svgElement))]\<close>
proof -
  from exportAsSVG_files [OF assms] obtain svgElement where found:
    "querySelector_tag container (js ''svg'') = Some svgElement"
    and written: "files s' = files s @
       [(filePath (currentDir ctx)
           (js ''mermaid-diagram-'' @ number_to_string (date_now h) @ js ''.svg''),
         TextFile (xml_declaration @ [line_feed] @ doctype_declaration @ [line_feed] @
                   serializeToString h (cloneNode svgElement)))]"
    by blast
  from found obtain others where first:
    "filter (\<lambda>x. tagName x = js ''svg'') (descendants (childNodes container)) =
       svgElement # others"
    by (auto simp: querySelector_tag_def find_first_descendants split: list.splits)
  from written have
    \<open>files s' = files s @
       [(filePath (currentDir ctx)
           (js ''mermaid-diagram-'' @ number_to_string (date_now h) @ js ''.svg''),
         TextFile
           (js ''<?xml version="1.0" encoding="UTF-8"?>'' @ [0x0A] @
            js ''<!DOCTYPE svg PUBLIC "-//W3C//DTD SVG 1.1//EN" "http://www.w3.org/Graphics/SVG/1.1/DTD/svg11.dtd">'' @
            [0x0A] @ serializeToString h svgElement))]\<close>
    by (simp only: exportAsSVG_text cloneNode_def)
  with first show ?thesis by blast
qed

theorem exportAsSVG_document_witness:
  \<open>files (snd (exportAsSVG sample_host sample_container sample_context fresh_plugin)) \<noteq>
     files fresh_plugin \<and>
   (\<exists>path svgElement others.
      filter (\<lambda>x. tagName x = js ''svg'') (descendants (childNodes sample_container)) =
        svgElement # others \<and>
      files (snd (exportAsSVG sample_host sample_container sample_context fresh_plugin)) =
        files fresh_plugin @
        [(path, TextFile
            (js ''<?xml version="1.0" encoding="UTF-8"?>'' @ [0x0A] @
             js ''<!DOCTYPE svg PUBLIC "-//W3C//DTD SVG 1.1//EN" "http://www.w3.org/Graphics/SVG/1.1/DTD/svg11.dtd">'' @
             [0x0A] @ serializeToString sample_host svgElement))])\<close>
proof -
  have written:
    "files (snd (exportAsSVG sample_host sample_container sample_context fresh_plugin)) \<noteq>
       files fresh_plugin"
    unfolding sample_exportAsSVG by (simp add: fresh_plugin_def)
  from written exportAsSVG_document [OF prod.collapse [symmetric] written]
  show ?thesis by (rule conjI)
qed



lemma export_size_measured:
  "export_width h = (if measured_width h \<noteq> 0 then measured_width h else 800) \<and>
   export_height h = (if measured_height h \<noteq> 0 then measured_height h else 600)"
  by (simp add: export_width_def export_height_def measured_width_def measured_height_def
                or_number_def split: option.splits)

lemma white_where_uncovered:
  assumes "x < 2 * w" and "y < 2 * ht" and "img (2 * w, 2 * ht) (x, y) = None"
  shows "bitmap (drawImage h
           (fillRect (createCanvas\<lparr>canvas_width := w * 2, canvas_height := ht * 2,
                                   transform_scale := 2, fillStyle := white\<rparr>) w ht)
           img w ht) x y = white"
  using assms by (simp add: drawImage_def fillRect_def)

text \<open>
  C7 (as amended). Whenever the raster export writes a file, the image is twice as wide
  and twice as high as the size the export works with, and every pixel of it that the
  drawn visual does not cover is opaque white. That size is the measured one (the computed
  style's size, else the client size) where the measurement is not zero, and the default
  800 wide or 600 high where it is.
\<close>

theorem exportAsPNG_image:
  assumes "exportAsPNG h container ctx s = (r, s')" and "files s' \<noteq> files s"
  shows "\<exists>path svgElement img pixels.
           querySelector_tag container (js ''svg'') = Some svgElement \<and>
           image_load h (js ''data:image/svg+xml;charset=utf-8,'' @
                         encodeURIComponent h (serializeToString h svgElement)) = Some img \<and>
           files s' = files s @
             [(path, PngFile (2 * export_width h) (2 * export_height h) pixels)] \<and>
           export_width h = (if measured_width h \<noteq> 0 then measured_width h else 800) \<and>
           export_height h = (if measured_height h \<noteq> 0 then measured_height h else 600) \<and>
           (\<forall>x y. x < 2 * export_width h \<and> y < 2 * export_height h \<and>
                  img (2 * export_width h, 2 * export_height h) (x, y) = None \<longrightarrow>
                  pixels x y = white)"
proof -
  let ?w = "export_width h" and ?ht = "export_height h"
  from exportAsPNG_files [OF assms] obtain svgElement img where out:
    "querySelector_tag container (js ''svg'') = Some svgElement"
    "image_load h (js ''data:image/svg+xml;charset=utf-8,'' @
                   encodeURIComponent h (serializeToString h svgElement)) = Some img"
    "files s' = files s @
       [(filePath (currentDir ctx)
           (js ''mermaid-diagram-'' @ number_to_string (date_now h) @ js ''.png''),
         PngFile (?w * 2) (?ht * 2)
           (bitmap (drawImage h
              (fillRect (createCanvas\<lparr>canvas_width := ?w * 2, canvas_height := ?ht * 2,
                                      transform_scale := 2, fillStyle := white\<rparr>) ?w ?ht)
              img ?w ?ht)))]"
    by blast
  let ?pixels = "bitmap (drawImage h
              (fillRect (createCanvas\<lparr>canvas_width := ?w * 2, canvas_height := ?ht * 2,
                                      transform_scale := 2, fillStyle := white\<rparr>) ?w ?ht)
              img ?w ?ht)"
  have size: "?w * 2 = 2 * ?w" "?ht * 2 = 2 * ?ht" by simp_all
  have background: "\<forall>x y. x < 2 * ?w \<and> y < 2 * ?ht \<and> img (2 * ?w, 2 * ?ht) (x, y) = None \<longrightarrow>
                      ?pixels x y = white"
    using white_where_uncovered by blast
  from out(3) have written: "files s' = files s @
       [(filePath (currentDir ctx)
           (js ''mermaid-diagram-'' @ number_to_string (date_now h) @ js ''.png''),
         PngFile (2 * ?w) (2 * ?ht) ?pixels)]"
    by (simp only: size)
  from out(1,2) written export_size_measured [of h] background show ?thesis by blast
qed

lemma sample_exportAsPNG_files:
  assumes "canvas_getContext h" and "image_load h = (\<lambda>uri. Some img)"
    and "canvas_toBlob h = BlobOk" and "vault_createBinary h = (\<lambda>path. None)"
  shows "map (image_size \<circ> snd) (files (snd (exportAsPNG h sample_container ctx fresh_plugin))) =
           [Some (export_width h * 2, export_height h * 2)]"
  unfolding exportAsPNG_def sample_container_svg
  using assms by (simp add: Let_def show_notice_def canvas_size_kept fresh_plugin_def)

theorem exportAsPNG_image_witness:
  "files (snd (exportAsPNG sample_host sample_container sample_context fresh_plugin)) \<noteq>
     files fresh_plugin \<and>
   (\<exists>path svgElement img pixels.
      querySelector_tag sample_container (js ''svg'') = Some svgElement \<and>
      image_load sample_host (js ''data:image/svg+xml;charset=utf-8,'' @
        encodeURIComponent sample_host (serializeToString sample_host svgElement)) = Some img \<and>
      files (snd (exportAsPNG sample_host sample_container sample_context fresh_plugin)) =
        files fresh_plugin @ [(path, PngFile 200 100 pixels)] \<and>
      (\<forall>x y. x < 200 \<and> y < 100 \<and> img (200, 100) (x, y) = None \<longrightarrow> pixels x y = white))"
proof -
  let ?s' = "snd (exportAsPNG sample_host sample_container sample_context fresh_plugin)"
  have "map (image_size \<circ> snd) (files ?s') =
          [Some (export_width sample_host * 2, export_height sample_host * 2)]"
    by (rule sample_exportAsPNG_files) (simp_all add: sample_host_def)
  then have written: "files ?s' \<noteq> files fresh_plugin"
    by (auto simp: fresh_plugin_def)
  have size: "2 * export_width sample_host = 200" "2 * export_height sample_host = 100"
    by (simp_all add: export_width_def export_height_def or_number_def sample_host_def)
  from exportAsPNG_image [OF prod.collapse [symmetric] written]
  have "\<exists>path svgElement img pixels.
      querySelector_tag sample_container (js ''svg'') = Some svgElement \<and>
      image_load sample_host (js ''data:image/svg+xml;charset=utf-8,'' @
        encodeURIComponent sample_host (serializeToString sample_host svgElement)) = Some img \<and>
      files ?s' = files fresh_plugin @ [(path, PngFile 200 100 pixels)] \<and>
      (\<forall>x y. x < 200 \<and> y < 100 \<and> img (200, 100) (x, y) = None \<longrightarrow> pixels x y = white)"
    unfolding size by blast
  with written show ?thesis by (rule conjI)
qed

text \<open>
  C7, the claim as stated, fails for a visual without measurable size: both measurements
  are zero, and the image written is 1600 by 1200.
\<close>

theorem unmeasured_visual_counterexample:
  "measured_width unmeasured_host = 0 \<and> measured_height unmeasured_host = 0 \<and>
   map (image_size \<circ> snd)
     (files (snd (exportAsPNG unmeasured_host sample_container sample_context fresh_plugin))) =
     [Some (1600, 1200)]"
proof -
  have a: "measured_width unmeasured_host = 0" "measured_height unmeasured_host = 0"
    by (simp_all add: measured_width_def measured_height_def or_number_def unmeasured_host_def)
  have size: "export_width unmeasured_host * 2 = 1600" "export_height unmeasured_host * 2 = 1200"
    by (simp_all add: export_width_def export_height_def or_number_def unmeasured_host_def)
  have "map (image_size \<circ> snd)
     (files (snd (exportAsPNG unmeasured_host sample_container sample_context fresh_plugin))) =
     [Some (export_width unmeasured_host * 2, export_height unmeasured_host * 2)]"
    by (rule sample_exportAsPNG_files) (simp_all add: unmeasured_host_def sample_host_def)
  with a show ?thesis unfolding size by (intro conjI)
qed

text \<open>
  The vector export contains its failures: whatever fails, the promise is fulfilled, the
  ready flag is untouched, and an export that writes no file shows a notice.
\<close>

lemma exportAsSVG_contained:
  "fst (exportAsSVG h container ctx s) = Fulfilled \<and>
   mermaidInitialized (snd (exportAsSVG h container ctx s)) = mermaidInitialized s \<and>
   (files (snd (exportAsSVG h container ctx s)) = files s \<longrightarrow>
      (\<exists>text. notices (snd (exportAsSVG h container ctx s)) = notices s @ [text]))"
  by (auto simp: exportAsSVG_def Let_def show_notice_def split: option.splits)

text \<open>
  C1. The raster export does not contain its failures. The \<open>try\<close> block returns the promise that wraps the image
  loading without awaiting it, so the \<open>catch\<close> block sees only what is thrown before: when
  the image cannot be decoded the promise of the export is rejected and no notice is shown,
  and when the vault refuses the file the promise is never settled and no notice is shown.
\<close>

theorem exportAsPNG_failure_escapes:
  "exportAsPNG undecodable_host sample_container sample_context fresh_plugin =
     (Rejected (Error (js ''Failed to load SVG image'')), fresh_plugin) \<and>
   exportAsPNG unwritable_host sample_container sample_context fresh_plugin =
     (Pending, fresh_plugin) \<and>
   notices fresh_plugin = []"
proof -
  have a: "exportAsPNG undecodable_host sample_container sample_context fresh_plugin =
             (Rejected (Error (js ''Failed to load SVG image'')), fresh_plugin)"
    unfolding exportAsPNG_def sample_container_svg
    by (simp add: Let_def undecodable_host_def sample_host_def)
  have b: "exportAsPNG unwritable_host sample_container sample_context fresh_plugin =
             (Pending, fresh_plugin)"
    unfolding exportAsPNG_def sample_container_svg
    by (simp add: Let_def unwritable_host_def sample_host_def)
  have c: "notices fresh_plugin = []" by (simp add: fresh_plugin_def)
  from a b c show ?thesis by (intro conjI)
qed

end
